theory Spec2Isabelle
  imports Complex_Main
begin

section \<open>Data model (src/store.ts)\<close>

text \<open>
  JavaScript numbers are modelled as \<open>real\<close>, \<open>Date.now()\<close> as an \<open>int\<close> of
  milliseconds, a \<open>string | null\<close> as \<open>string option\<close>, an array as a list. An
  arithmetic expression of the source stands for the number the program computes; in
  \<open>triggerExplosion\<close>, whose result a claim bounds, the rounding of every operation to
  a double is written out (\<open>roundDouble\<close>).
  Field names follow the source; \<open>id\<close> is written \<open>block_id\<close> / \<open>particle_id\<close>, the
  particle's \<open>position\<close> and \<open>color\<close> carry the prefix \<open>particle_\<close>, and the store's
  wrist \<open>rotation\<close> is \<open>hand_rotation\<close>, because record fields of one theory must differ.
\<close>

datatype GestureType = NONE | OPEN_PALM | PINCH | FIST | THUMBS_UP | WAVE | POINTING_UP

type_synonym vec3 = "real \<times> real \<times> real"

record BlockData =
  block_id :: string
  position :: vec3
  rotation :: vec3
  color :: string
  scale :: vec3

record ParticleData =
  particle_id :: string
  particle_position :: vec3
  particle_color :: string
  createdAt :: int

record AppState =
  handPresent :: bool
  cursorPosition :: "real \<times> real"
  gesture :: GestureType
  hand_rotation :: real
  blocks :: "BlockData list"
  particles :: "ParticleData list"
  selectedBlockId :: "string option"
  grabbedBlockId :: "string option"
  cameraPan :: real

text \<open>
  What a call reads from outside the repository: the results of \<open>Math.random()\<close> in call
  order, the built-in \<open>Number.prototype.toString(36)\<close>, the results of \<open>Date.now()\<close> in
  call order, and three.js's \<open>ray.distanceSqToPoint\<close> for the ray through the cursor.
\<close>

record Env =
  mathRandom :: "nat \<Rightarrow> real"
  toString36 :: "real \<Rightarrow> string"
  dateNow :: "nat \<Rightarrow> int"
  distanceSqToPoint :: "vec3 \<Rightarrow> real"

section \<open>Store actions (src/store.ts, lines 46-107)\<close>

definition digit :: "nat \<Rightarrow> char" where
  "digit d = ''0123456789'' ! d"

fun decimal :: "nat \<Rightarrow> string" where
  "decimal n = (if n < 10 then [digit n] else decimal (n div 10) @ [digit (n mod 10)])"

declare decimal.simps [simp del]

text \<open>\<open>Math.PI\<close> is the double nearest to \<open>\<pi>\<close>.\<close>

definition Math_PI :: real where
  "Math_PI = 884279719003555 / 281474976710656"

text \<open>One element of \<open>Array.from({ length: 12 }).map((_, i) => ...)\<close>; it draws five
  random numbers, in the order of the array literals.\<close>

definition initialBlock :: "Env \<Rightarrow> nat \<Rightarrow> BlockData" where
  "initialBlock e i =
     \<lparr> block_id = ''block-'' @ decimal i,
       position = ((mathRandom e (5 * i) - 0.5) * 10,
                   (mathRandom e (5 * i + 1) - 0.5) * 6,
                   (mathRandom e (5 * i + 2) - 0.5) * 4),
       rotation = (mathRandom e (5 * i + 3) * Math_PI, mathRandom e (5 * i + 4) * Math_PI, 0),
       color = (if i mod 2 = 0 then ''#60a5fa'' else if i mod 3 = 0 then ''#c084fc'' else ''#f472b6''),
       scale = (1, 1, 1) \<rparr>"

definition initialState :: "Env \<Rightarrow> AppState" where
  "initialState e =
     \<lparr> handPresent = False,
       cursorPosition = (0, 0),
       gesture = NONE,
       hand_rotation = 0,
       blocks = map (initialBlock e) [0..<12],
       particles = [],
       selectedBlockId = None,
       grabbedBlockId = None,
       cameraPan = 0 \<rparr>"

definition setHandState :: "bool \<Rightarrow> real \<Rightarrow> real \<Rightarrow> GestureType \<Rightarrow> real \<Rightarrow> AppState \<Rightarrow> AppState" where
  "setHandState present x y g r s =
     s\<lparr> handPresent := present, cursorPosition := (x, y), gesture := g, hand_rotation := r \<rparr>"

definition addBlock :: "BlockData \<Rightarrow> AppState \<Rightarrow> AppState" where
  "addBlock b s = s\<lparr> blocks := blocks s @ [b] \<rparr>"

definition removeBlock :: "string \<Rightarrow> AppState \<Rightarrow> AppState" where
  "removeBlock i s =
     s\<lparr> blocks := filter (\<lambda>b. block_id b \<noteq> i) (blocks s),
        selectedBlockId := (if selectedBlockId s = Some i then None else selectedBlockId s),
        grabbedBlockId := (if grabbedBlockId s = Some i then None else grabbedBlockId s) \<rparr>"

text \<open>\<open>rotation || b.rotation\<close>: the optional argument is an array (truthy) or undefined.\<close>

definition updateBlockPosition :: "string \<Rightarrow> vec3 \<Rightarrow> vec3 option \<Rightarrow> AppState \<Rightarrow> AppState" where
  "updateBlockPosition i pos rot s =
     s\<lparr> blocks := map (\<lambda>b. if block_id b = i
                              then b\<lparr> position := pos,
                                     rotation := (case rot of Some r \<Rightarrow> r | None \<Rightarrow> rotation b) \<rparr>
                              else b) (blocks s) \<rparr>"

definition setSelectedBlock :: "string option \<Rightarrow> AppState \<Rightarrow> AppState" where
  "setSelectedBlock i s = s\<lparr> selectedBlockId := i \<rparr>"

definition setGrabbedBlock :: "string option \<Rightarrow> AppState \<Rightarrow> AppState" where
  "setGrabbedBlock i s = s\<lparr> grabbedBlockId := i \<rparr>"

text \<open>
  Doubles. \<open>binaryExponent x\<close> is the exponent \<open>e\<close> with \<open>2^e \<le> x < 2^(e+1)\<close> of a
  positive \<open>x\<close>; \<open>roundDouble\<close> is IEEE 754 binary64 rounding to nearest, ties to even,
  of a real in the finite range: the nearest multiple of the unit in the last place
  \<open>2^(e - 52)\<close>, where the exponent is at least -1022 (subnormals). Overflow to
  \<open>Infinity\<close> is not modelled.
\<close>

function binaryExponent :: "real \<Rightarrow> int" where
  "binaryExponent x =
     (if x \<le> 0 then 0
      else if 2 \<le> x then binaryExponent (x / 2) + 1
      else if x < 1 then binaryExponent (2 * x) - 1
      else 0)"
  by pat_completeness auto
termination
proof (relation "measure (\<lambda>x. nat \<bar>\<lfloor>log 2 x\<rfloor>\<bar>)")
  show "wf (measure (\<lambda>x. nat \<bar>\<lfloor>log 2 x\<rfloor>\<bar>))" by simp
next
  fix x :: real
  assume "\<not> x \<le> 0" and "2 \<le> x"
  then have "log 2 (x / 2) = log 2 x - 1" and "1 \<le> log 2 x"
    by (simp_all add: log_divide le_log_iff)
  then have "\<lfloor>log 2 (x / 2)\<rfloor> = \<lfloor>log 2 x\<rfloor> - 1" and "1 \<le> \<lfloor>log 2 x\<rfloor>"
    by (simp_all add: le_floor_iff)
  then show "(x / 2, x) \<in> measure (\<lambda>x. nat \<bar>\<lfloor>log 2 x\<rfloor>\<bar>)"
    by simp
next
  fix x :: real
  assume "\<not> x \<le> 0" and "\<not> 2 \<le> x" and "x < 1"
  then have "log 2 (2 * x) = log 2 x + 1" and "log 2 x < 0"
    by (simp_all add: log_mult)
  then have "\<lfloor>log 2 (2 * x)\<rfloor> = \<lfloor>log 2 x\<rfloor> + 1" and "\<lfloor>log 2 x\<rfloor> \<le> - 1"
    by (simp_all add: floor_le_iff)
  then show "(2 * x, x) \<in> measure (\<lambda>x. nat \<bar>\<lfloor>log 2 x\<rfloor>\<bar>)"
    by simp
qed

declare binaryExponent.simps [simp del]

definition roundTiesToEven :: "real \<Rightarrow> int" where
  "roundTiesToEven y =
     (let f = \<lfloor>y\<rfloor>; d = y - of_int f
      in if d < 1 / 2 then f
         else if 1 / 2 < d then f + 1
         else if even f then f else f + 1)"

text \<open>Half a unit in the last place of the doubles around \<open>x\<close>.\<close>

definition halfUlp :: "real \<Rightarrow> real" where
  "halfUlp x = 2 powi (max (binaryExponent \<bar>x\<bar>) (- 1022) - 53)"

definition roundDouble :: "real \<Rightarrow> real" where
  "roundDouble x =
     (let u = 2 powi (max (binaryExponent \<bar>x\<bar>) (- 1022) - 52)
      in of_int (roundTiesToEven (x / u)) * u)"

text \<open>\<open>(Math.random() - 0.5) * 0.5\<close> for the random number \<open>r\<close>: a subtraction and a
  multiplication of doubles.\<close>

definition jitter :: "real \<Rightarrow> real" where
  "jitter r = roundDouble (roundDouble (r - 0.5) * 0.5)"

text \<open>The body of the \<open>for\<close> loop of \<open>triggerExplosion\<close> at index \<open>i\<close>: four calls of
  \<open>Math.random()\<close> (id, then x, y, z) and one of \<open>Date.now()\<close>; every coordinate is the
  double sum of the origin's coordinate and a jitter.\<close>

definition explosionParticle :: "Env \<Rightarrow> vec3 \<Rightarrow> string \<Rightarrow> nat \<Rightarrow> ParticleData" where
  "explosionParticle e pos col i =
     (case pos of (px, py, pz) \<Rightarrow>
       \<lparr> particle_id = toString36 e (mathRandom e (4 * i)),
         particle_position = (roundDouble (px + jitter (mathRandom e (4 * i + 1))),
                              roundDouble (py + jitter (mathRandom e (4 * i + 2))),
                              roundDouble (pz + jitter (mathRandom e (4 * i + 3)))),
         particle_color = col,
         createdAt = dateNow e i \<rparr>)"

definition newParticles :: "Env \<Rightarrow> vec3 \<Rightarrow> string \<Rightarrow> ParticleData list" where
  "newParticles e pos col = map (explosionParticle e pos col) [0..<20]"

definition triggerExplosion :: "Env \<Rightarrow> vec3 \<Rightarrow> string \<Rightarrow> AppState \<Rightarrow> AppState" where
  "triggerExplosion e pos col s = s\<lparr> particles := particles s @ newParticles e pos col \<rparr>"

definition clearParticles :: "string \<Rightarrow> AppState \<Rightarrow> AppState" where
  "clearParticles i s = s\<lparr> particles := filter (\<lambda>p. particle_id p \<noteq> i) (particles s) \<rparr>"

definition panCamera :: "real \<Rightarrow> AppState \<Rightarrow> AppState" where
  "panCamera delta s = s\<lparr> cameraPan := cameraPan s + delta \<rparr>"

section \<open>Wave detection and gesture priority (HandController, predictWebcam)\<close>






section \<open>Particle retirement (src/components/Particles.tsx, lines 30-39)\<close>

text \<open>The \<open>useFrame\<close> callback of the component rendered for the particle \<open>data\<close>;
  \<open>mounted\<close> is \<open>meshRef.current\<close> being set, \<open>now\<close> the value of \<open>Date.now()\<close>.\<close>

definition particleFrame :: "bool \<Rightarrow> int \<Rightarrow> ParticleData \<Rightarrow> AppState \<Rightarrow> AppState" where
  "particleFrame mounted now data s =
     (if \<not> mounted then s
      else let timeAlive = real_of_int (now - createdAt data) / 1000
           in if timeAlive > 2 then clearParticles (particle_id data) s else s)"

text \<open>One render tick: the callback of every particle rendered from the store runs once.\<close>

definition particlesTick :: "int \<Rightarrow> AppState \<Rightarrow> AppState" where
  "particlesTick now s = foldl (\<lambda>s' p. particleFrame True now p s') s (particles s)"

section \<open>Interaction manager (src/components/Scene3D.tsx, lines 11-131)\<close>

text \<open>The store together with the two refs of the component.\<close>

record World =
  store :: AppState
  prevGesture :: GestureType
  prevSelectedId :: "string option"

text \<open>Which branch of the state machine issued its store calls on a frame.\<close>

datatype Command =
    Select "string option"
  | Grab string
  | Release
  | Explode string
  | Duplicate string

text \<open>JavaScript truthiness of a \<open>string | null\<close>: null and the empty string are falsy.\<close>

definition truthy :: "string option \<Rightarrow> bool" where
  "truthy v = (case v of None \<Rightarrow> False | Some str \<Rightarrow> str \<noteq> [])"

text \<open>The body of \<open>blocks.forEach\<close> on the pair \<open>(closestId, closestDist)\<close>; the distance
  \<open>None\<close> is the initial \<open>Infinity\<close>.\<close>

definition closestStep ::
  "Env \<Rightarrow> string option \<times> real option \<Rightarrow> BlockData \<Rightarrow> string option \<times> real option" where
  "closestStep e acc block =
     (case acc of (closestId, closestDist) \<Rightarrow>
        let dist = distanceSqToPoint e (position block)
        in if dist < 2 \<and> (case closestDist of None \<Rightarrow> True | Some d \<Rightarrow> dist < d)
           then (Some (block_id block), Some dist)
           else (closestId, closestDist))"

definition closestBlock :: "Env \<Rightarrow> BlockData list \<Rightarrow> string option" where
  "closestBlock e bs =
     (if length bs > 0 then fst (foldl (closestStep e) (None, None) bs) else None)"

text \<open>The five \<open>if\<close> statements of the state machine, in source order. Each takes the
  values read before any of them ran (\<open>gesture\<close>, \<open>prevGesture.current\<close>,
  \<open>currentlySelected\<close>, \<open>currentlyGrabbed\<close>, the rendered \<open>blocks\<close>) and the store with
  the commands issued so far.\<close>

definition selectPhase ::
  "GestureType \<Rightarrow> string option \<Rightarrow> string option \<Rightarrow> string option \<Rightarrow>
   AppState \<times> Command list \<Rightarrow> AppState \<times> Command list" where
  "selectPhase g closestId currentlySelected currentlyGrabbed r =
     (if \<not> truthy currentlyGrabbed \<and> (g = OPEN_PALM \<or> g = NONE) \<and> closestId \<noteq> currentlySelected
      then (setSelectedBlock closestId (fst r), snd r @ [Select closestId])
      else r)"

definition grabPhase ::
  "GestureType \<Rightarrow> GestureType \<Rightarrow> string option \<Rightarrow>
   AppState \<times> Command list \<Rightarrow> AppState \<times> Command list" where
  "grabPhase g prev currentlySelected r =
     (case currentlySelected of
        None \<Rightarrow> r
      | Some sel \<Rightarrow>
          if sel \<noteq> [] \<and> g = PINCH \<and> prev \<noteq> PINCH
          then (setGrabbedBlock (Some sel) (fst r), snd r @ [Grab sel])
          else r)"

definition releasePhase ::
  "GestureType \<Rightarrow> GestureType \<Rightarrow> string option \<Rightarrow>
   AppState \<times> Command list \<Rightarrow> AppState \<times> Command list" where
  "releasePhase g prev currentlyGrabbed r =
     (if truthy currentlyGrabbed \<and> g = OPEN_PALM \<and> prev \<noteq> OPEN_PALM
      then (setGrabbedBlock None (fst r), snd r @ [Release])
      else r)"

definition explodePhase ::
  "Env \<Rightarrow> BlockData list \<Rightarrow> GestureType \<Rightarrow> GestureType \<Rightarrow> string option \<Rightarrow>
   AppState \<times> Command list \<Rightarrow> AppState \<times> Command list" where
  "explodePhase e bs g prev currentlySelected r =
     (case currentlySelected of
        None \<Rightarrow> r
      | Some sel \<Rightarrow>
          if sel \<noteq> [] \<and> g = FIST \<and> prev \<noteq> FIST
          then (case find (\<lambda>b. block_id b = sel) bs of
                  None \<Rightarrow> r
                | Some block \<Rightarrow>
                    (setSelectedBlock None
                       (setGrabbedBlock None
                          (removeBlock sel
                             (triggerExplosion e (position block) (color block) (fst r)))),
                     snd r @ [Explode sel]))
          else r)"

definition duplicatePhase ::
  "Env \<Rightarrow> BlockData list \<Rightarrow> GestureType \<Rightarrow> GestureType \<Rightarrow> string option \<Rightarrow>
   AppState \<times> Command list \<Rightarrow> AppState \<times> Command list" where
  "duplicatePhase e bs g prev currentlySelected r =
     (case currentlySelected of
        None \<Rightarrow> r
      | Some sel \<Rightarrow>
          if sel \<noteq> [] \<and> g = THUMBS_UP \<and> prev \<noteq> THUMBS_UP
          then (case find (\<lambda>b. block_id b = sel) bs of
                  None \<Rightarrow> r
                | Some block \<Rightarrow>
                    (addBlock
                       (case position block of (px, py, pz) \<Rightarrow>
                          block\<lparr> block_id := toString36 e (mathRandom e 0),
                                 position := (px + 1.5, py, pz) \<rparr>)
                       (fst r),
                     snd r @ [Duplicate sel]))
          else r)"

text \<open>The \<open>useFrame\<close> callback of \<open>InteractionManager\<close>. The values the component
  rendered with (\<open>handPresent\<close>, \<open>gesture\<close>, \<open>blocks\<close>) are those of the store when the
  frame starts. The early return leaves both refs as they were.\<close>

definition interactionFrame :: "Env \<Rightarrow> World \<Rightarrow> World \<times> Command list" where
  "interactionFrame e w =
     (let s = store w; g = gesture s; bs = blocks s
      in if \<not> handPresent s
         then (w\<lparr> store := setGrabbedBlock None (setSelectedBlock None s) \<rparr>, [])
         else
           let closestId = closestBlock e bs;
               currentlySelected = selectedBlockId s;
               currentlyGrabbed = grabbedBlockId s;
               prev = prevGesture w;
               r = duplicatePhase e bs g prev currentlySelected
                     (explodePhase e bs g prev currentlySelected
                        (releasePhase g prev currentlyGrabbed
                           (grabPhase g prev currentlySelected
                              (selectPhase g closestId currentlySelected currentlyGrabbed
                                 (s, [])))))
           in (\<lparr> store = fst r, prevGesture = g, prevSelectedId = currentlySelected \<rparr>, snd r))"

text \<open>One camera frame followed by one render frame: \<open>setHandState\<close> with the sample of
  the hand controller, then the interaction manager's callback.\<close>

record HandSample =
  sample_present :: bool
  sample_x :: real
  sample_y :: real
  sample_gesture :: GestureType
  sample_rotation :: real

definition handUpdate :: "HandSample \<Rightarrow> World \<Rightarrow> World" where
  "handUpdate h w =
     w\<lparr> store := setHandState (sample_present h) (sample_x h) (sample_y h)
                   (sample_gesture h) (sample_rotation h) (store w) \<rparr>"


fun runWorld :: "World \<Rightarrow> (Env \<times> HandSample) list \<Rightarrow> World" where
  "runWorld w [] = w"
| "runWorld w (f # fs) = runWorld (fst (interactionFrame (fst f) (handUpdate (snd f) w))) fs"

definition initialWorld :: "Env \<Rightarrow> World" where
  "initialWorld e = \<lparr> store = initialState e, prevGesture = NONE, prevSelectedId = None \<rparr>"

text \<open>The states of the running program: the initial store, then any interleaving of the
  hand controller's writes (\<open>setHandState\<close>, \<open>panCamera\<close>), the interaction manager's
  frame, the drag update of a block component (\<open>updateBlockPosition\<close> without a rotation)
  and the frame of a particle component.\<close>

inductive reachable :: "World \<Rightarrow> bool" where
  reach_init: "reachable (initialWorld e)"
| reach_hand: "reachable w \<Longrightarrow> reachable (w\<lparr> store := setHandState p x y g r (store w) \<rparr>)"
| reach_pan: "reachable w \<Longrightarrow> reachable (w\<lparr> store := panCamera d (store w) \<rparr>)"
| reach_frame: "reachable w \<Longrightarrow> reachable (fst (interactionFrame e w))"
| reach_drag: "reachable w \<Longrightarrow> reachable (w\<lparr> store := updateBlockPosition i pos None (store w) \<rparr>)"
| reach_particle: "reachable w \<Longrightarrow> reachable (w\<lparr> store := particleFrame m now q (store w) \<rparr>)"



section \<open>Concrete inputs used in the examples\<close>

text \<open>Every \<open>Math.random()\<close> returns 0.5, whose \<open>toString(36)\<close> is \<open>"0.i"\<close>; the
  ray is the line \<open>x = cx, y = 0\<close>.\<close>

definition exampleEnv :: "real \<Rightarrow> Env" where
  "exampleEnv cx =
     \<lparr> mathRandom = (\<lambda>k. 1 / 2),
       toString36 = (\<lambda>x. if x = 1 / 2 then ''0.i'' else ''0''),
       dateNow = (\<lambda>k. 1000),
       distanceSqToPoint = (\<lambda>p. case p of (x, y, z) \<Rightarrow> (x - cx) * (x - cx) + y * y) \<rparr>"

definition handWith :: "GestureType \<Rightarrow> HandSample" where
  "handWith g =
     \<lparr> sample_present = True, sample_x = 0, sample_y = 0, sample_gesture = g,
       sample_rotation = 0 \<rparr>"

definition handAbsent :: HandSample where
  "handAbsent =
     \<lparr> sample_present = False, sample_x = 0, sample_y = 0, sample_gesture = NONE,
       sample_rotation = 0 \<rparr>"

text \<open>The initial store, then a frame with no gesture over \<open>block-0\<close>.\<close>

definition selectedWorld :: World where
  "selectedWorld = runWorld (initialWorld (exampleEnv 0)) [(exampleEnv 0, handWith NONE)]"

text \<open>... then a pinch: \<open>block-0\<close> is grabbed.\<close>

definition grabbedWorld :: World where
  "grabbedWorld = runWorld selectedWorld [(exampleEnv 0, handWith PINCH)]"

text \<open>... then a frame with no gesture (the grab persists) and a new pinch sample.\<close>

definition regrabWorld :: World where
  "regrabWorld =
     handUpdate (handWith PINCH) (runWorld grabbedWorld [(exampleEnv 0, handWith NONE)])"

section \<open>Notions used in the statements\<close>


text \<open>Within 0.25 of the origin \<open>q\<close> on every axis.\<close>

definition withinJitter :: "vec3 \<Rightarrow> vec3 \<Rightarrow> bool" where
  "withinJitter p q =
     (case p of (px, py, pz) \<Rightarrow> case q of (qx, qy, qz) \<Rightarrow>
        \<bar>px - qx\<bar> \<le> 0.25 \<and> \<bar>py - qy\<bar> \<le> 0.25 \<and> \<bar>pz - qz\<bar> \<le> 0.25)"

text \<open>Successive render ticks of the particle components, at the given clock values.\<close>

definition particlesTicks :: "int list \<Rightarrow> AppState \<Rightarrow> AppState" where
  "particlesTicks nows s = foldl (\<lambda>s' now. particlesTick now s') s nows"

section \<open>Further concrete inputs\<close>


text \<open>\<open>block-0\<close> grabbed, then a fist sample.\<close>

definition fistWorld :: World where
  "fistWorld = handUpdate (handWith FIST) grabbedWorld"

text \<open>\<open>block-0\<close> grabbed and dragged to x = -0.3 (the double nearest to it), then a fist
  sample; on that frame every \<open>Math.random()\<close> returns 0.\<close>

definition draggedFistWorld :: World where
  "draggedFistWorld =
     handUpdate (handWith FIST)
       (grabbedWorld\<lparr> store := updateBlockPosition ''block-0''
            (- (5404319552844595 / 18014398509481984), 0, 0) None (store grabbedWorld) \<rparr>)"

definition zeroRandomEnv :: Env where
  "zeroRandomEnv = (exampleEnv 0)\<lparr> mathRandom := (\<lambda>k. 0) \<rparr>"



text \<open>Two particles whose ids came from equal \<open>Math.random()\<close> results, spawned one
  second apart.\<close>

definition olderParticle :: ParticleData where
  "olderParticle =
     \<lparr> particle_id = ''0.i'', particle_position = (0, 0, 0), particle_color = ''#60a5fa'',
       createdAt = 0 \<rparr>"

definition youngerParticle :: ParticleData where
  "youngerParticle =
     \<lparr> particle_id = ''0.i'', particle_position = (1, 0, 0), particle_color = ''#c084fc'',
       createdAt = 1000 \<rparr>"

definition otherParticle :: ParticleData where
  "otherParticle =
     \<lparr> particle_id = ''0.9'', particle_position = (1, 0, 0), particle_color = ''#c084fc'',
       createdAt = 0 \<rparr>"

definition sharedIdStore :: AppState where
  "sharedIdStore = (initialState (exampleEnv 0))\<lparr> particles := [olderParticle, youngerParticle] \<rparr>"

definition distinctIdStore :: AppState where
  "distinctIdStore = (initialState (exampleEnv 0))\<lparr> particles := [otherParticle, youngerParticle] \<rparr>"

section \<open>Invariant of the selection and grab pointers\<close>

text \<open>The grabbed id is never the (falsy) empty string, a grabbed block is the selected
  one, and both pointers name blocks of the collection.\<close>

definition pointersOk :: "World \<Rightarrow> bool" where
  "pointersOk w =
     (grabbedBlockId (store w) \<noteq> Some []
      \<and> (grabbedBlockId (store w) \<noteq> None \<longrightarrow> selectedBlockId (store w) = grabbedBlockId (store w))
      \<and> (\<forall>i. selectedBlockId (store w) = Some i \<longrightarrow> i \<in> block_id ` set (blocks (store w)))
      \<and> (\<forall>i. grabbedBlockId (store w) = Some i \<longrightarrow> i \<in> block_id ` set (blocks (store w))))"

section \<open>Wave detection: theorems\<close>







section \<open>Interaction manager: theorems\<close>

lemmas store_defs = setHandState_def addBlock_def removeBlock_def updateBlockPosition_def
  setSelectedBlock_def setGrabbedBlock_def triggerExplosion_def clearParticles_def panCamera_def

lemmas phase_defs = selectPhase_def grabPhase_def releasePhase_def explodePhase_def
  duplicatePhase_def

lemma closestStep_fold:
  "fst acc = None \<or> (\<exists>i \<in> block_id ` (S \<union> set bs). fst acc = Some i) \<Longrightarrow>
   fst (foldl (closestStep e) acc bs) = None
   \<or> (\<exists>i \<in> block_id ` (S \<union> set bs). fst (foldl (closestStep e) acc bs) = Some i)"
proof (induction bs arbitrary: acc S)
  case Nil
  then show ?case by simp
next
  case (Cons b bs)
  have "fst (closestStep e acc b) = None
        \<or> (\<exists>i \<in> block_id ` (insert b S \<union> set bs). fst (closestStep e acc b) = Some i)"
    using Cons.prems by (auto simp: closestStep_def Let_def split: prod.splits)
  from Cons.IH [OF this] show ?case by simp
qed

lemma closestBlock_mem: "closestBlock e bs = Some i \<Longrightarrow> i \<in> block_id ` set bs"
  using closestStep_fold [of "(None, None)" "{}" bs e]
  by (auto simp: closestBlock_def split: if_splits)

lemma frame_absent:
  "\<not> handPresent (store w) \<Longrightarrow>
   interactionFrame e w =
     (w\<lparr> store := (store w)\<lparr> selectedBlockId := None, grabbedBlockId := None \<rparr> \<rparr>, [])"
  by (simp add: interactionFrame_def store_defs Let_def)

lemma pointersOk_frame: "pointersOk w \<Longrightarrow> pointersOk (fst (interactionFrame e w))"
proof (cases "handPresent (store w)")
  case False
  then show ?thesis by (simp add: frame_absent pointersOk_def)
next
  case True
  assume ok: "pointersOk w"
  show ?thesis
    using True ok
    by (cases "gesture (store w)")
       (auto simp: pointersOk_def interactionFrame_def phase_defs store_defs Let_def truthy_def
             split: option.splits dest: closestBlock_mem)
qed

lemma updateBlockPosition_ids:
  "map block_id (blocks (updateBlockPosition i pos rot s)) = map block_id (blocks s)"
  by (simp add: updateBlockPosition_def if_distrib [of block_id])

lemma pointersOk_reachable: "reachable w \<Longrightarrow> pointersOk w"
proof (induction rule: reachable.induct)
  case (reach_init e)
  show ?case by (simp add: pointersOk_def initialWorld_def initialState_def)
next
  case (reach_hand w p x y g r)
  then show ?case by (simp add: pointersOk_def setHandState_def)
next
  case (reach_pan w d)
  then show ?case by (simp add: pointersOk_def panCamera_def)
next
  case (reach_frame w e)
  from reach_frame.IH show ?case by (rule pointersOk_frame)
next
  case (reach_drag w i pos)
  have "block_id ` set (blocks (updateBlockPosition i pos None (store w)))
        = block_id ` set (blocks (store w))"
    using updateBlockPosition_ids [of i pos None "store w"] by (metis set_map)
  with reach_drag.IH show ?case
    by (simp add: pointersOk_def) (simp add: updateBlockPosition_def)
next
  case (reach_particle w m now q)
  then show ?case
    by (simp add: pointersOk_def particleFrame_def clearParticles_def Let_def)
qed

text \<open>
  C1: in every reachable state, if \<open>grabbedBlockId\<close> is non-null then
  \<open>selectedBlockId\<close> equals \<open>grabbedBlockId\<close>.
\<close>

theorem C1_grabbed_is_selected:
  "reachable w \<Longrightarrow> grabbedBlockId (store w) \<noteq> None \<Longrightarrow>
   selectedBlockId (store w) = grabbedBlockId (store w)"
  using pointersOk_reachable [of w] by (simp add: pointersOk_def)

lemma reachable_runWorld: "reachable w \<Longrightarrow> reachable (runWorld w fs)"
proof (induction fs arbitrary: w)
  case Nil
  then show ?case by simp
next
  case (Cons f fs)
  have "reachable (handUpdate (snd f) w)"
    unfolding handUpdate_def using Cons.prems by (rule reach_hand)
  then have "reachable (fst (interactionFrame (fst f) (handUpdate (snd f) w)))"
    by (rule reach_frame)
  from Cons.IH [OF this] show ?case by simp
qed

lemmas example_defs = selectedWorld_def grabbedWorld_def initialWorld_def initialState_def
  handUpdate_def handWith_def handAbsent_def exampleEnv_def interactionFrame_def
  closestBlock_def closestStep_def store_defs phase_defs Let_def upt_rec initialBlock_def
  decimal.simps digit_def truthy_def

lemma grabbedWorld_grabbed: "grabbedBlockId (store grabbedWorld) = Some ''block-0''"
  by (simp add: example_defs)

lemma reachable_grabbedWorld: "reachable grabbedWorld"
  unfolding grabbedWorld_def selectedWorld_def
  by (intro reachable_runWorld reach_init)

theorem C1_grabbed_is_selected_witness:
  "reachable grabbedWorld \<and> grabbedBlockId (store grabbedWorld) = Some ''block-0''
   \<and> selectedBlockId (store grabbedWorld) = Some ''block-0''"
  using C1_grabbed_is_selected [OF reachable_grabbedWorld] reachable_grabbedWorld
    grabbedWorld_grabbed
  by simp

lemma removeBlock_clears:
  "selectedBlockId (removeBlock i s) \<noteq> Some i \<and> grabbedBlockId (removeBlock i s) \<noteq> Some i
   \<and> i \<notin> block_id ` set (blocks (removeBlock i s))"
  by (auto simp: removeBlock_def)

lemma frame_selection_source:
  "selectedBlockId (store (fst (interactionFrame e w))) = Some i \<Longrightarrow>
   selectedBlockId (store w) = Some i \<or> i \<in> block_id ` set (blocks (store w))"
  by (cases "gesture (store w)")
     (auto simp: interactionFrame_def phase_defs store_defs Let_def truthy_def
           split: option.splits if_splits dest: closestBlock_mem)

text \<open>
  C10: in every reachable state a non-null \<open>selectedBlockId\<close> or \<open>grabbedBlockId\<close> names
  a block of the collection; a frame sets the selection only to an id among the blocks it
  started with (or keeps it, or sets null); \<open>removeBlock\<close> clears both pointers in the
  same update when they equal the removed id.
\<close>

theorem C10_no_dangling_ids:
  "reachable w \<Longrightarrow>
     (\<forall>i. selectedBlockId (store w) = Some i \<longrightarrow> i \<in> block_id ` set (blocks (store w)))
   \<and> (\<forall>i. grabbedBlockId (store w) = Some i \<longrightarrow> i \<in> block_id ` set (blocks (store w)))
   \<and> (\<forall>e i. selectedBlockId (store (fst (interactionFrame e w))) = Some i \<longrightarrow>
          selectedBlockId (store w) = Some i \<or> i \<in> block_id ` set (blocks (store w)))
   \<and> (\<forall>i. selectedBlockId (removeBlock i (store w)) \<noteq> Some i
          \<and> grabbedBlockId (removeBlock i (store w)) \<noteq> Some i
          \<and> i \<notin> block_id ` set (blocks (removeBlock i (store w))))"
  using pointersOk_reachable [of w] frame_selection_source [of _ w] removeBlock_clears
  by (simp add: pointersOk_def)

theorem C10_no_dangling_ids_witness:
  "reachable grabbedWorld
   \<and> grabbedBlockId (store grabbedWorld) = Some ''block-0''
   \<and> ''block-0'' \<in> block_id ` set (blocks (store grabbedWorld))
   \<and> ''block-0'' \<notin> block_id ` set (blocks (removeBlock ''block-0'' (store grabbedWorld)))"
  using C10_no_dangling_ids [OF reachable_grabbedWorld] reachable_grabbedWorld
    grabbedWorld_grabbed
  by simp

text \<open>
  C7: on a frame with \<open>handPresent = false\<close> the interaction step leaves
  \<open>selectedBlockId\<close> and \<open>grabbedBlockId\<close> null and changes nothing else; it issues no
  selection, grab, release, explode or duplicate command; running it again changes
  nothing.
\<close>

theorem C7_hand_absent:
  "\<not> handPresent (store w) \<Longrightarrow>
     selectedBlockId (store (fst (interactionFrame e w))) = None
   \<and> grabbedBlockId (store (fst (interactionFrame e w))) = None
   \<and> snd (interactionFrame e w) = []
   \<and> fst (interactionFrame e w)
       = w\<lparr> store := (store w)\<lparr> selectedBlockId := None, grabbedBlockId := None \<rparr> \<rparr>
   \<and> interactionFrame e' (fst (interactionFrame e w)) = interactionFrame e w"
  by (simp add: frame_absent)

theorem C7_hand_absent_witness:
  "\<not> handPresent (store (handUpdate handAbsent grabbedWorld))
   \<and> grabbedBlockId (store (handUpdate handAbsent grabbedWorld)) = Some ''block-0''
   \<and> grabbedBlockId (store (fst (interactionFrame (exampleEnv 0)
         (handUpdate handAbsent grabbedWorld)))) = None
   \<and> selectedBlockId (store (fst (interactionFrame (exampleEnv 0)
         (handUpdate handAbsent grabbedWorld)))) = None
   \<and> snd (interactionFrame (exampleEnv 0) (handUpdate handAbsent grabbedWorld)) = []"
proof -
  have h: "\<not> handPresent (store (handUpdate handAbsent grabbedWorld))"
    by (simp add: handUpdate_def handAbsent_def setHandState_def)
  have g: "grabbedBlockId (store (handUpdate handAbsent grabbedWorld)) = Some ''block-0''"
    using grabbedWorld_grabbed by (simp add: handUpdate_def setHandState_def)
  from C7_hand_absent [OF h, of "exampleEnv 0"] h g show ?thesis by simp
qed

text \<open>
  C6: on an OPEN_PALM rising edge while an object is grabbed (\<open>grabbedBlockId\<close> is
  truthy), the frame sets
  \<open>grabbedBlockId\<close> to null and changes nothing else in the store: \<open>selectedBlockId\<close>,
  the blocks and the particles are unchanged; the only command is the release.
\<close>

theorem C6_release_only_clears_grab:
  "handPresent (store w) \<Longrightarrow> gesture (store w) = OPEN_PALM \<Longrightarrow> prevGesture w \<noteq> OPEN_PALM \<Longrightarrow>
   truthy (grabbedBlockId (store w)) \<Longrightarrow>
     store (fst (interactionFrame e w)) = (store w)\<lparr> grabbedBlockId := None \<rparr>
   \<and> grabbedBlockId (store (fst (interactionFrame e w))) = None
   \<and> selectedBlockId (store (fst (interactionFrame e w))) = selectedBlockId (store w)
   \<and> blocks (store (fst (interactionFrame e w))) = blocks (store w)
   \<and> particles (store (fst (interactionFrame e w))) = particles (store w)
   \<and> snd (interactionFrame e w) = [Release]"
  by (simp add: interactionFrame_def phase_defs store_defs Let_def split: option.splits)

lemma grabbedWorld_prev: "prevGesture grabbedWorld = PINCH"
  by (simp add: example_defs)

theorem C6_release_only_clears_grab_witness:
  "handPresent (store (handUpdate (handWith OPEN_PALM) grabbedWorld))
   \<and> gesture (store (handUpdate (handWith OPEN_PALM) grabbedWorld)) = OPEN_PALM
   \<and> prevGesture (handUpdate (handWith OPEN_PALM) grabbedWorld) \<noteq> OPEN_PALM
   \<and> truthy (grabbedBlockId (store (handUpdate (handWith OPEN_PALM) grabbedWorld)))
   \<and> grabbedBlockId (store (fst (interactionFrame (exampleEnv 0)
         (handUpdate (handWith OPEN_PALM) grabbedWorld)))) = None
   \<and> snd (interactionFrame (exampleEnv 0) (handUpdate (handWith OPEN_PALM) grabbedWorld))
       = [Release]"
proof -
  let ?w = "handUpdate (handWith OPEN_PALM) grabbedWorld"
  have h: "handPresent (store ?w)" "gesture (store ?w) = OPEN_PALM"
    by (simp_all add: handUpdate_def handWith_def setHandState_def)
  have p: "prevGesture ?w \<noteq> OPEN_PALM"
    using grabbedWorld_prev by (simp add: handUpdate_def)
  have g: "truthy (grabbedBlockId (store ?w))"
    using grabbedWorld_grabbed by (simp add: handUpdate_def setHandState_def truthy_def)
  from C6_release_only_clears_grab [OF h p g, of "exampleEnv 0"] h p g show ?thesis by simp
qed


lemma regrabWorld_facts:
  "handPresent (store regrabWorld)" "gesture (store regrabWorld) = PINCH"
  "prevGesture regrabWorld = NONE" "grabbedBlockId (store regrabWorld) = Some ''block-0''"
  "selectedBlockId (store regrabWorld) = Some ''block-0''"
  by (simp_all add: regrabWorld_def example_defs)

lemma reachable_regrabWorld: "reachable regrabWorld"
  unfolding regrabWorld_def handUpdate_def
  by (intro reach_hand reachable_runWorld reachable_grabbedWorld)

text \<open>
  C4, as stated, refuted: after select, pinch, no gesture, the block \<open>block-0\<close> is still
  grabbed; the next pinch is a rising edge and the grab command fires again.
\<close>

theorem C4_regrab_counterexample:
  "reachable regrabWorld
   \<and> handPresent (store regrabWorld)
   \<and> gesture (store regrabWorld) = PINCH
   \<and> prevGesture regrabWorld = NONE
   \<and> grabbedBlockId (store regrabWorld) = Some ''block-0''
   \<and> snd (interactionFrame (exampleEnv 0) regrabWorld) = [Grab ''block-0'']"
proof -
  have "snd (interactionFrame (exampleEnv 0) regrabWorld) = [Grab ''block-0'']"
    using regrabWorld_facts
    by (simp add: interactionFrame_def phase_defs store_defs Let_def truthy_def)
  with reachable_regrabWorld regrabWorld_facts show ?thesis by simp
qed

text \<open>
  C4, amended: a grab of the object \<open>i\<close> is issued on a frame exactly when the hand is
  present, the gesture is a PINCH rising edge and \<open>i\<close> is the (non-empty) selected id,
  whether or not something is already grabbed; the grab sets \<open>grabbedBlockId\<close> to the
  selected id.
\<close>

theorem C4_grab_on_pinch_edge:
  "(Grab i \<in> set (snd (interactionFrame e w)) \<longleftrightarrow>
      handPresent (store w) \<and> gesture (store w) = PINCH \<and> prevGesture w \<noteq> PINCH
      \<and> selectedBlockId (store w) = Some i \<and> i \<noteq> [])
   \<and> (Grab i \<in> set (snd (interactionFrame e w)) \<longrightarrow>
        grabbedBlockId (store (fst (interactionFrame e w))) = Some i
        \<and> selectedBlockId (store (fst (interactionFrame e w))) = Some i)"
  by (cases "gesture (store w)")
     (auto simp: interactionFrame_def phase_defs store_defs Let_def truthy_def
           split: option.splits if_splits)

theorem C4_grab_on_pinch_edge_witness:
  "Grab ''block-0'' \<in> set (snd (interactionFrame (exampleEnv 0) regrabWorld))
   \<and> grabbedBlockId (store regrabWorld) = Some ''block-0''
   \<and> grabbedBlockId (store (fst (interactionFrame (exampleEnv 0) regrabWorld)))
       = Some ''block-0''"
  using C4_grab_on_pinch_edge [of "''block-0''" "exampleEnv 0" regrabWorld] regrabWorld_facts
  by simp













section \<open>Explosion: doubles and the jitter bound\<close>

lemma binaryExponent_bounds:
  "0 < x \<Longrightarrow> 2 powi binaryExponent x \<le> x \<and> x < 2 powi (binaryExponent x + 1)"
proof (induction x rule: binaryExponent.induct)
  case (1 x)
  show ?case
  proof (cases "2 \<le> x")
    case True
    with "1.prems" have e: "binaryExponent x = binaryExponent (x / 2) + 1"
      by (simp add: binaryExponent.simps [of x])
    have "2 powi binaryExponent (x / 2) \<le> x / 2 \<and> x / 2 < 2 powi (binaryExponent (x / 2) + 1)"
      using "1.IH"(1) "1.prems" True by simp
    then show ?thesis
      unfolding e by (simp add: power_int_add field_simps)
  next
    case False
    show ?thesis
    proof (cases "x < 1")
      case True
      with "1.prems" False have e: "binaryExponent x = binaryExponent (2 * x) - 1"
        by (simp add: binaryExponent.simps [of x])
      have "2 powi binaryExponent (2 * x) \<le> 2 * x
            \<and> 2 * x < 2 powi (binaryExponent (2 * x) + 1)"
        using "1.IH"(2) "1.prems" False True by simp
      then show ?thesis
        unfolding e by (simp add: power_int_add power_int_diff field_simps)
    next
      case ge: False
      with "1.prems" False have "binaryExponent x = 0"
        by (simp add: binaryExponent.simps [of x])
      with ge False show ?thesis by simp
    qed
  qed
qed

lemma roundTiesToEven_bound:
  assumes "\<bar>y\<bar> \<le> of_int n"
  shows "\<bar>roundTiesToEven y\<bar> \<le> n"
proof -
  have lo: "- n \<le> \<lfloor>y\<rfloor>"
    using assms by (simp add: le_floor_iff abs_le_iff)
  have "y \<le> of_int n"
    using assms by (simp add: abs_le_iff)
  then have "\<lfloor>y\<rfloor> \<le> \<lfloor>real_of_int n\<rfloor>"
    by (rule floor_mono)
  then have hi: "\<lfloor>y\<rfloor> \<le> n"
    by simp
  have up: "0 < y - of_int \<lfloor>y\<rfloor> \<Longrightarrow> \<lfloor>y\<rfloor> + 1 \<le> n"
  proof -
    assume "0 < y - of_int \<lfloor>y\<rfloor>"
    then have "of_int \<lfloor>y\<rfloor> < y" by simp
    also have "y \<le> of_int n" using assms by (simp add: abs_le_iff)
    finally have "\<lfloor>y\<rfloor> < n" by simp
    then show ?thesis by simp
  qed
  show ?thesis
    using lo hi up by (auto simp: roundTiesToEven_def Let_def abs_le_iff)
qed

lemma roundTiesToEven_error: "\<bar>of_int (roundTiesToEven y) - y\<bar> \<le> 1 / 2"
proof -
  have "of_int \<lfloor>y\<rfloor> \<le> y" and "y < of_int \<lfloor>y\<rfloor> + 1"
    by linarith+
  then show ?thesis
    by (auto simp: roundTiesToEven_def Let_def abs_le_iff)
qed

lemma roundDouble_bound:
  assumes "\<bar>x\<bar> \<le> 2 powi k" and "- 1022 \<le> k"
  shows "\<bar>roundDouble x\<bar> \<le> 2 powi k"
proof (cases "x = 0")
  case True
  then show ?thesis by (simp add: roundDouble_def roundTiesToEven_def Let_def)
next
  case False
  define m where "m = max (binaryExponent \<bar>x\<bar>) (- 1022)"
  define u :: real where "u = 2 powi (m - 52)"
  have upos: "0 < u" by (simp add: u_def)
  have "2 powi binaryExponent \<bar>x\<bar> \<le> \<bar>x\<bar>"
    using binaryExponent_bounds [of "\<bar>x\<bar>"] False by simp
  with assms(1) have "(2::real) powi binaryExponent \<bar>x\<bar> \<le> 2 powi k" by simp
  then have "binaryExponent \<bar>x\<bar> \<le> k"
    using power_int_strict_increasing [of k "binaryExponent \<bar>x\<bar>" "2::real"]
    by (cases "binaryExponent \<bar>x\<bar> \<le> k") simp_all
  with assms(2) have mk: "m \<le> k" by (simp add: m_def)
  define n where "n = nat (k - m + 52)"
  have pk: "(2::real) powi k = of_int (2 ^ n) * u"
  proof -
    have "(2::real) powi k = 2 powi (int n + (m - 52))"
      using mk by (simp add: n_def)
    also have "\<dots> = 2 powi (int n) * 2 powi (m - 52)"
      by (rule power_int_add) simp
    finally show ?thesis by (simp add: u_def)
  qed
  have "\<bar>x / u\<bar> \<le> of_int (2 ^ n)"
    using assms(1) upos unfolding pk by (simp add: abs_divide field_simps)
  then have "\<bar>roundTiesToEven (x / u)\<bar> \<le> 2 ^ n"
    by (rule roundTiesToEven_bound)
  then have "\<bar>real_of_int (roundTiesToEven (x / u))\<bar> \<le> real_of_int (2 ^ n)"
    by (metis of_int_abs of_int_le_iff)
  then have "\<bar>real_of_int (roundTiesToEven (x / u)) * u\<bar> \<le> real_of_int (2 ^ n) * u"
    using upos by (simp add: abs_mult)
  then show ?thesis
    unfolding pk by (simp add: roundDouble_def Let_def m_def u_def)
qed

lemma roundDouble_error: "\<bar>roundDouble x - x\<bar> \<le> halfUlp x"
proof -
  define u :: real where "u = 2 powi (max (binaryExponent \<bar>x\<bar>) (- 1022) - 52)"
  have upos: "0 < u" by (simp add: u_def)
  have h: "halfUlp x = u / 2"
    by (simp add: halfUlp_def u_def power_int_diff)
  have "roundDouble x - x = (of_int (roundTiesToEven (x / u)) - x / u) * u"
    using upos by (simp add: roundDouble_def Let_def u_def [symmetric] field_simps)
  then have "\<bar>roundDouble x - x\<bar> = \<bar>of_int (roundTiesToEven (x / u)) - x / u\<bar> * u"
    using upos by (simp add: abs_mult)
  also have "\<dots> \<le> 1 / 2 * u"
    using roundTiesToEven_error [of "x / u"] upos by (intro mult_right_mono) simp_all
  finally show ?thesis by (simp add: h)
qed

lemma jitter_bound:
  assumes "0 \<le> r" and "r < 1"
  shows "\<bar>jitter r\<bar> \<le> 1 / 4"
proof -
  have "\<bar>r - 0.5\<bar> \<le> 2 powi (- 1)"
    using assms by (simp add: abs_if power_int_minus)
  then have "\<bar>roundDouble (r - 0.5)\<bar> \<le> 2 powi (- 1)"
    by (rule roundDouble_bound) simp
  then have "\<bar>roundDouble (r - 0.5) * 0.5\<bar> \<le> 2 powi (- 2)"
    by (simp add: abs_mult power_int_minus)
  then have "\<bar>roundDouble (roundDouble (r - 0.5) * 0.5)\<bar> \<le> 2 powi (- 2)"
    by (rule roundDouble_bound) simp
  then show ?thesis
    by (simp add: jitter_def power_int_minus)
qed


lemma explosionParticle_props:
  assumes "\<forall>k. 0 \<le> mathRandom e k \<and> mathRandom e k < 1"
  shows "particle_color (explosionParticle e pos col i) = col
       \<and> (\<exists>jx jy jz. \<bar>jx\<bar> \<le> 1 / 4 \<and> \<bar>jy\<bar> \<le> 1 / 4 \<and> \<bar>jz\<bar> \<le> 1 / 4
            \<and> particle_position (explosionParticle e pos col i)
                = (roundDouble (fst pos + jx), roundDouble (fst (snd pos) + jy),
                   roundDouble (snd (snd pos) + jz))
            \<and> \<bar>fst (particle_position (explosionParticle e pos col i)) - fst pos\<bar>
                \<le> 1 / 4 + halfUlp (fst pos + jx)
            \<and> \<bar>fst (snd (particle_position (explosionParticle e pos col i))) - fst (snd pos)\<bar>
                \<le> 1 / 4 + halfUlp (fst (snd pos) + jy)
            \<and> \<bar>snd (snd (particle_position (explosionParticle e pos col i))) - snd (snd pos)\<bar>
                \<le> 1 / 4 + halfUlp (snd (snd pos) + jz))"
proof -
  have near: "\<bar>roundDouble (c + j) - c\<bar> \<le> 1 / 4 + halfUlp (c + j)" if "\<bar>j\<bar> \<le> 1 / 4" for c j
    using roundDouble_error [of "c + j"] that by linarith
  have j: "\<bar>jitter (mathRandom e k)\<bar> \<le> 1 / 4" for k
    using assms by (intro jitter_bound) simp_all
  obtain px py pz where pos: "pos = (px, py, pz)" by (cases pos)
  show ?thesis
    unfolding pos explosionParticle_def
    using j [of "4 * i + 1"] j [of "4 * i + 2"] j [of "4 * i + 3"]
      near [OF j [of "4 * i + 1"], of px] near [OF j [of "4 * i + 2"], of py]
      near [OF j [of "4 * i + 3"], of pz]
    by (simp del: One_nat_def) blast
qed

lemma newParticles_length: "length (newParticles e pos col) = 20"
  by (simp add: newParticles_def)

lemma newParticles_member:
  "p \<in> set (newParticles e pos col) \<Longrightarrow> \<exists>i < 20. p = explosionParticle e pos col i"
  by (auto simp: newParticles_def)

lemma frame_fist_edge:
  "handPresent (store w) \<Longrightarrow> gesture (store w) = FIST \<Longrightarrow> prevGesture w \<noteq> FIST \<Longrightarrow>
   selectedBlockId (store w) = Some i \<Longrightarrow> i \<noteq> [] \<Longrightarrow>
   find (\<lambda>c. block_id c = i) (blocks (store w)) = Some b \<Longrightarrow>
   interactionFrame e w =
     (\<lparr> store = (store w)\<lparr> blocks := filter (\<lambda>c. block_id c \<noteq> i) (blocks (store w)),
                            particles := particles (store w) @ newParticles e (position b) (color b),
                            selectedBlockId := None, grabbedBlockId := None \<rparr>,
        prevGesture = FIST, prevSelectedId = Some i \<rparr>, [Explode i])"
  by (simp add: interactionFrame_def phase_defs store_defs Let_def truthy_def)

lemma draggedFistWorld_facts:
  "handPresent (store draggedFistWorld)" "gesture (store draggedFistWorld) = FIST"
  "prevGesture draggedFistWorld \<noteq> FIST"
  "selectedBlockId (store draggedFistWorld) = Some ''block-0''"
  "find (\<lambda>c. block_id c = ''block-0'') (blocks (store draggedFistWorld))
     = Some ((initialBlock (exampleEnv 0) 0)
               \<lparr> position := (- (5404319552844595 / 18014398509481984), 0, 0) \<rparr>)"
  "particles (store draggedFistWorld) = []"
  by (simp_all add: draggedFistWorld_def example_defs)

lemma reachable_draggedFistWorld: "reachable draggedFistWorld"
  unfolding draggedFistWorld_def handUpdate_def
  by (intro reach_hand reach_drag reachable_grabbedWorld)

lemma withinJitter_fst: "withinJitter p q \<Longrightarrow> \<bar>fst p - fst q\<bar> \<le> 1 / 4"
  by (cases p, cases q) (simp add: withinJitter_def)

lemma roundDouble_examples:
  "roundDouble (- (1 / 2)) = - (1 / 2)"
  "roundDouble (- (1 / 4)) = - (1 / 4)"
  "roundDouble (- (9907919180215091 / 18014398509481984))
     = - (2476979795053773 / 4503599627370496)"
  by (simp_all add: roundDouble_def roundTiesToEven_def binaryExponent.simps Let_def)

lemma jitter_zero: "jitter 0 = - (1 / 4)"
  by (simp add: jitter_def roundDouble_examples)

text \<open>
  C3, as stated, refuted: the exploded block sits at x = -0.3 (as a double,
  -5404319552844595 / 2^54) and \<open>Math.random()\<close> returns 0, so the jitter is -0.25; the
  exact sum lies halfway between two doubles and is rounded to -4953959590107546 / 2^53,
  which is more than 0.25 away from the block's x.
\<close>

theorem C3_rounded_sum_counterexample:
  "reachable draggedFistWorld
   \<and> handPresent (store draggedFistWorld)
   \<and> gesture (store draggedFistWorld) = FIST
   \<and> prevGesture draggedFistWorld \<noteq> FIST
   \<and> selectedBlockId (store draggedFistWorld) = Some ''block-0''
   \<and> find (\<lambda>c. block_id c = ''block-0'') (blocks (store draggedFistWorld))
       = Some ((initialBlock (exampleEnv 0) 0)
                 \<lparr> position := (- (5404319552844595 / 18014398509481984), 0, 0) \<rparr>)
   \<and> mathRandom zeroRandomEnv 1 = 0
   \<and> fst (particle_position
        (particles (store (fst (interactionFrame zeroRandomEnv draggedFistWorld))) ! 0))
       = - (4953959590107546 / 9007199254740992)
   \<and> \<not> withinJitter
        (particle_position
           (particles (store (fst (interactionFrame zeroRandomEnv draggedFistWorld))) ! 0))
        (- (5404319552844595 / 18014398509481984), 0, 0)"
proof -
  have n: "''block-0'' \<noteq> []" by simp
  note f = frame_fist_edge [OF draggedFistWorld_facts(1-4) n draggedFistWorld_facts(5),
      of zeroRandomEnv]
  have p: "particles (store (fst (interactionFrame zeroRandomEnv draggedFistWorld))) ! 0
           = explosionParticle zeroRandomEnv (- (5404319552844595 / 18014398509481984), 0, 0)
               ''#60a5fa'' 0"
    by (simp add: f draggedFistWorld_facts(6) newParticles_def initialBlock_def
        nth_map [of 0 "[0..<20]"] del: upt.simps)
  have x: "fst (particle_position
             (explosionParticle zeroRandomEnv (- (5404319552844595 / 18014398509481984), 0, 0)
                ''#60a5fa'' 0))
           = - (4953959590107546 / 9007199254740992)"
    by (simp add: explosionParticle_def zeroRandomEnv_def exampleEnv_def jitter_zero
        roundDouble_examples)
  have r: "mathRandom zeroRandomEnv 1 = 0"
    by (simp add: zeroRandomEnv_def)
  have w: "\<not> withinJitter
        (particle_position
           (explosionParticle zeroRandomEnv (- (5404319552844595 / 18014398509481984), 0, 0)
              ''#60a5fa'' 0))
        (- (5404319552844595 / 18014398509481984), 0, 0)"
    using x withinJitter_fst
      [of "particle_position
             (explosionParticle zeroRandomEnv (- (5404319552844595 / 18014398509481984), 0, 0)
                ''#60a5fa'' 0)"
          "(- (5404319552844595 / 18014398509481984), 0, 0)"]
    by auto
  from reachable_draggedFistWorld draggedFistWorld_facts r x w show ?thesis
    unfolding p by simp
qed


text \<open>
  C3, amended: on a FIST rising edge while a block with the selected (non-empty) id
  exists, no block with that id remains in the collection, \<open>selectedBlockId\<close> and
  \<open>grabbedBlockId\<close> are null after the frame, and exactly 20 particles are appended,
  each carrying the block's color and positioned, on every axis, at the double nearest
  to the block's coordinate plus a jitter within 0.25: within 0.25 of the block's
  position up to the rounding of that sum, which is at most half a unit in the last
  place (every \<open>Math.random()\<close> result lies in [0, 1)).
\<close>

theorem C3_explode:
  assumes "handPresent (store w)" and "gesture (store w) = FIST" and "prevGesture w \<noteq> FIST"
    and "selectedBlockId (store w) = Some i" and "i \<noteq> []"
    and "find (\<lambda>c. block_id c = i) (blocks (store w)) = Some b"
    and "\<forall>k. 0 \<le> mathRandom e k \<and> mathRandom e k < 1"
  shows "blocks (store (fst (interactionFrame e w)))
           = filter (\<lambda>c. block_id c \<noteq> i) (blocks (store w))
       \<and> i \<notin> block_id ` set (blocks (store (fst (interactionFrame e w))))
       \<and> selectedBlockId (store (fst (interactionFrame e w))) = None
       \<and> grabbedBlockId (store (fst (interactionFrame e w))) = None
       \<and> (\<exists>ps. particles (store (fst (interactionFrame e w))) = particles (store w) @ ps
              \<and> length ps = 20
              \<and> (\<forall>p \<in> set ps. particle_color p = color b
                    \<and> (\<exists>jx jy jz. \<bar>jx\<bar> \<le> 1 / 4 \<and> \<bar>jy\<bar> \<le> 1 / 4 \<and> \<bar>jz\<bar> \<le> 1 / 4
                          \<and> particle_position p
                              = (roundDouble (fst (position b) + jx),
                                 roundDouble (fst (snd (position b)) + jy),
                                 roundDouble (snd (snd (position b)) + jz))
                          \<and> \<bar>fst (particle_position p) - fst (position b)\<bar>
                              \<le> 1 / 4 + halfUlp (fst (position b) + jx)
                          \<and> \<bar>fst (snd (particle_position p)) - fst (snd (position b))\<bar>
                              \<le> 1 / 4 + halfUlp (fst (snd (position b)) + jy)
                          \<and> \<bar>snd (snd (particle_position p)) - snd (snd (position b))\<bar>
                              \<le> 1 / 4 + halfUlp (snd (snd (position b)) + jz))))
       \<and> snd (interactionFrame e w) = [Explode i]"
proof -
  note f = frame_fist_edge [OF assms(1-6), of e]
  have each: "\<forall>p \<in> set (newParticles e (position b) (color b)). particle_color p = color b
                    \<and> (\<exists>jx jy jz. \<bar>jx\<bar> \<le> 1 / 4 \<and> \<bar>jy\<bar> \<le> 1 / 4 \<and> \<bar>jz\<bar> \<le> 1 / 4
                          \<and> particle_position p
                              = (roundDouble (fst (position b) + jx),
                                 roundDouble (fst (snd (position b)) + jy),
                                 roundDouble (snd (snd (position b)) + jz))
                          \<and> \<bar>fst (particle_position p) - fst (position b)\<bar>
                              \<le> 1 / 4 + halfUlp (fst (position b) + jx)
                          \<and> \<bar>fst (snd (particle_position p)) - fst (snd (position b))\<bar>
                              \<le> 1 / 4 + halfUlp (fst (snd (position b)) + jy)
                          \<and> \<bar>snd (snd (particle_position p)) - snd (snd (position b))\<bar>
                              \<le> 1 / 4 + halfUlp (snd (snd (position b)) + jz))"
  proof
    fix p
    assume "p \<in> set (newParticles e (position b) (color b))"
    then obtain k where "p = explosionParticle e (position b) (color b) k"
      using newParticles_member by blast
    then show "particle_color p = color b
                    \<and> (\<exists>jx jy jz. \<bar>jx\<bar> \<le> 1 / 4 \<and> \<bar>jy\<bar> \<le> 1 / 4 \<and> \<bar>jz\<bar> \<le> 1 / 4
                          \<and> particle_position p
                              = (roundDouble (fst (position b) + jx),
                                 roundDouble (fst (snd (position b)) + jy),
                                 roundDouble (snd (snd (position b)) + jz))
                          \<and> \<bar>fst (particle_position p) - fst (position b)\<bar>
                              \<le> 1 / 4 + halfUlp (fst (position b) + jx)
                          \<and> \<bar>fst (snd (particle_position p)) - fst (snd (position b))\<bar>
                              \<le> 1 / 4 + halfUlp (fst (snd (position b)) + jy)
                          \<and> \<bar>snd (snd (particle_position p)) - snd (snd (position b))\<bar>
                              \<le> 1 / 4 + halfUlp (snd (snd (position b)) + jz))"
      using explosionParticle_props [OF assms(7), of "position b" "color b" k] by simp
  qed
  have "\<exists>ps. particles (store (fst (interactionFrame e w))) = particles (store w) @ ps
              \<and> length ps = 20
              \<and> (\<forall>p \<in> set ps. particle_color p = color b
                    \<and> (\<exists>jx jy jz. \<bar>jx\<bar> \<le> 1 / 4 \<and> \<bar>jy\<bar> \<le> 1 / 4 \<and> \<bar>jz\<bar> \<le> 1 / 4
                          \<and> particle_position p
                              = (roundDouble (fst (position b) + jx),
                                 roundDouble (fst (snd (position b)) + jy),
                                 roundDouble (snd (snd (position b)) + jz))
                          \<and> \<bar>fst (particle_position p) - fst (position b)\<bar>
                              \<le> 1 / 4 + halfUlp (fst (position b) + jx)
                          \<and> \<bar>fst (snd (particle_position p)) - fst (snd (position b))\<bar>
                              \<le> 1 / 4 + halfUlp (fst (snd (position b)) + jy)
                          \<and> \<bar>snd (snd (particle_position p)) - snd (snd (position b))\<bar>
                              \<le> 1 / 4 + halfUlp (snd (snd (position b)) + jz)))"
    using each newParticles_length [of e "position b" "color b"]
    by (intro exI [of _ "newParticles e (position b) (color b)"]) (simp add: f)
  moreover have "i \<notin> block_id ` set (filter (\<lambda>c. block_id c \<noteq> i) (blocks (store w)))"
    by auto
  ultimately show ?thesis by (simp add: f)
qed

lemma fistWorld_facts:
  "handPresent (store fistWorld)" "gesture (store fistWorld) = FIST"
  "prevGesture fistWorld \<noteq> FIST" "selectedBlockId (store fistWorld) = Some ''block-0''"
  "grabbedBlockId (store fistWorld) = Some ''block-0''"
  "find (\<lambda>c. block_id c = ''block-0'') (blocks (store fistWorld))
     = Some (initialBlock (exampleEnv 0) 0)"
  by (simp_all add: fistWorld_def example_defs)

theorem C3_explode_witness:
  "handPresent (store fistWorld) \<and> gesture (store fistWorld) = FIST
   \<and> prevGesture fistWorld \<noteq> FIST
   \<and> selectedBlockId (store fistWorld) = Some ''block-0''
   \<and> grabbedBlockId (store fistWorld) = Some ''block-0''
   \<and> find (\<lambda>c. block_id c = ''block-0'') (blocks (store fistWorld))
       = Some (initialBlock (exampleEnv 0) 0)
   \<and> ''block-0'' \<notin> block_id ` set (blocks (store (fst (interactionFrame (exampleEnv 0) fistWorld))))
   \<and> selectedBlockId (store (fst (interactionFrame (exampleEnv 0) fistWorld))) = None
   \<and> grabbedBlockId (store (fst (interactionFrame (exampleEnv 0) fistWorld))) = None
   \<and> length (particles (store (fst (interactionFrame (exampleEnv 0) fistWorld)))) = 20"
proof -
  have r: "\<forall>k. 0 \<le> mathRandom (exampleEnv 0) k \<and> mathRandom (exampleEnv 0) k < 1"
    by (simp add: exampleEnv_def)
  have n: "''block-0'' \<noteq> []" by simp
  have p: "particles (store fistWorld) = []"
    by (simp add: fistWorld_def example_defs)
  note t = C3_explode [OF fistWorld_facts(1-4) n fistWorld_facts(6) r]
  from t obtain ps where
    "particles (store (fst (interactionFrame (exampleEnv 0) fistWorld)))
       = particles (store fistWorld) @ ps" and "length ps = 20"
    by blast
  with p have "length (particles (store (fst (interactionFrame (exampleEnv 0) fistWorld)))) = 20"
    by simp
  with t fistWorld_facts show ?thesis by blast
qed

section \<open>Duplication and particle lifetime\<close>









lemma particleFrame_particles:
  "particles (particleFrame True now q s)
     = (if createdAt q + 2000 < now
        then filter (\<lambda>r. particle_id r \<noteq> particle_id q) (particles s)
        else particles s)"
  by (simp add: particleFrame_def clearParticles_def Let_def)

lemma particleFrame_unmounted: "particleFrame False now q s = s"
  by (simp add: particleFrame_def)

lemma particleFrame_young: "now \<le> createdAt q + 2000 \<Longrightarrow> particleFrame m now q s = s"
  by (simp add: particleFrame_def Let_def)

lemma foldl_particleFrame:
  "particles (foldl (\<lambda>s' p. particleFrame True now p s') s ps)
     = filter (\<lambda>r. \<forall>p \<in> set ps. createdAt p + 2000 < now \<longrightarrow> particle_id p \<noteq> particle_id r)
         (particles s)"
proof (induction ps arbitrary: s)
  case Nil
  show ?case by simp
next
  case (Cons q ps)
  show ?case
    unfolding foldl_Cons Cons.IH particleFrame_particles
    by (auto intro: filter_cong)
qed

lemma particlesTick_particles:
  "particles (particlesTick now s)
     = filter (\<lambda>r. \<forall>p \<in> set (particles s).
                 createdAt p + 2000 < now \<longrightarrow> particle_id p \<noteq> particle_id r)
         (particles s)"
  by (simp add: particlesTick_def foldl_particleFrame)

lemma particlesTick_keeps:
  assumes "p \<in> set (particles s)"
    and "\<forall>q \<in> set (particles s). q \<noteq> p \<longrightarrow> particle_id q \<noteq> particle_id p"
    and "now \<le> createdAt p + 2000"
  shows "p \<in> set (particles (particlesTick now s))"
  using assms unfolding particlesTick_particles by auto

lemma particlesTick_retires:
  assumes "createdAt p + 2000 < now"
  shows "p \<notin> set (particles (particlesTick now s))"
  using assms unfolding particlesTick_particles by auto

lemma particlesTicks_keeps:
  "p \<in> set (particles s) \<Longrightarrow>
   \<forall>q \<in> set (particles s). q \<noteq> p \<longrightarrow> particle_id q \<noteq> particle_id p \<Longrightarrow>
   \<forall>now \<in> set nows. now \<le> createdAt p + 2000 \<Longrightarrow>
   p \<in> set (particles (particlesTicks nows s))"
proof (induction nows arbitrary: s)
  case Nil
  then show ?case by (simp add: particlesTicks_def)
next
  case (Cons now nows)
  have here: "p \<in> set (particles (particlesTick now s))"
    using Cons.prems by (intro particlesTick_keeps) simp_all
  have sub: "set (particles (particlesTick now s)) \<subseteq> set (particles s)"
    unfolding particlesTick_particles by auto
  have "p \<in> set (particles (particlesTicks nows (particlesTick now s)))"
    using here sub Cons.prems by (intro Cons.IH) auto
  then show ?case by (simp add: particlesTicks_def)
qed

text \<open>
  C9, as stated, refuted: two particles carry the same id; the frame that retires the
  older one, 2.1 s after its spawn, also removes the younger one, which is 1.1 s old.
\<close>

theorem C9_shared_id_counterexample:
  "youngerParticle \<in> set (particles sharedIdStore)
   \<and> 2100 \<le> createdAt youngerParticle + 1900
   \<and> youngerParticle \<notin> set (particles (particleFrame True 2100 olderParticle sharedIdStore))
   \<and> particles (particlesTick 2100 sharedIdStore) = []"
  by (simp add: sharedIdStore_def olderParticle_def youngerParticle_def particlesTick_def
      particleFrame_def clearParticles_def Let_def)

text \<open>
  C9, amended: the frame of a particle's component retires it once its age exceeds
  2 seconds, and retirement removes from the store's collection every particle carrying
  its id. A particle spawned at \<open>t0\<close> whose id no other particle shares is still present
  after any ticks up to \<open>t0\<close> + 2 s, in particular at \<open>t0\<close> + 1.9 s, whatever the spawn
  times of the others; every particle is absent after a tick later than \<open>t0\<close> + 2 s, in
  particular at \<open>t0\<close> + 2.1 s.
\<close>

theorem C9_particle_lifetime:
  "particles (particleFrame True now q s)
     = (if createdAt q + 2000 < now
        then filter (\<lambda>r. particle_id r \<noteq> particle_id q) (particles s)
        else particles s)
   \<and> (p \<in> set (particles s)
        \<and> (\<forall>r \<in> set (particles s). r \<noteq> p \<longrightarrow> particle_id r \<noteq> particle_id p) \<longrightarrow>
        p \<in> set (particles (particlesTick (createdAt p + 1900) s))
        \<and> ((\<forall>t \<in> set nows. t \<le> createdAt p + 2000) \<longrightarrow>
              p \<in> set (particles (particlesTicks nows s))))
   \<and> p \<notin> set (particles (particlesTick (createdAt p + 2100) s))
   \<and> (createdAt p + 2000 < now \<longrightarrow> p \<notin> set (particles (particlesTick now s)))"
  using particleFrame_particles [of now q s]
    particlesTick_keeps [of p s "createdAt p + 1900"]
    particlesTicks_keeps [of p s nows]
    particlesTick_retires [of p "createdAt p + 2100" s]
    particlesTick_retires [of p now s]
  by simp

theorem C9_particle_lifetime_witness:
  "youngerParticle \<in> set (particles distinctIdStore)
   \<and> particle_id otherParticle \<noteq> particle_id youngerParticle
   \<and> createdAt otherParticle + 2000 < createdAt youngerParticle + 1900
   \<and> youngerParticle \<in> set (particles (particlesTick (createdAt youngerParticle + 1900) distinctIdStore))
   \<and> youngerParticle \<in> set (particles (particlesTicks [1500, 2500, 2900] distinctIdStore))
   \<and> youngerParticle \<notin> set (particles (particlesTick (createdAt youngerParticle + 2100) distinctIdStore))"
proof -
  have m: "youngerParticle \<in> set (particles distinctIdStore)"
    by (simp add: distinctIdStore_def)
  have u: "\<forall>r \<in> set (particles distinctIdStore).
             r \<noteq> youngerParticle \<longrightarrow> particle_id r \<noteq> particle_id youngerParticle"
    by (simp add: distinctIdStore_def otherParticle_def youngerParticle_def)
  have t: "\<forall>t \<in> set [1500, 2500, 2900]. t \<le> createdAt youngerParticle + 2000"
    by (simp add: youngerParticle_def)
  have o: "particle_id otherParticle \<noteq> particle_id youngerParticle"
    "createdAt otherParticle + 2000 < createdAt youngerParticle + 1900"
    by (simp_all add: otherParticle_def youngerParticle_def)
  from C9_particle_lifetime [of 0 otherParticle distinctIdStore youngerParticle
      "[1500, 2500, 2900]"] m u t o
  show ?thesis by blast
qed

end
